theory Spec2Isabelle
  imports Main
begin

section \<open>Values, requests and responses\<close>

text \<open>
  A parsed JSON value. Numbers are kept as integers: the handlers only test a number
  for truthiness. Nested arrays and objects are carried along and never inspected.
\<close>

datatype json =
    JNull
  | JBool bool
  | JNum int
  | JStr string
  | JArr "json list"
  | JObj "(string \<times> json) list"

text \<open>
  A JavaScript object with JSON values is a map from property names to values. Reading
  a property that is absent gives \<open>undefined\<close>, which is \<open>None\<close> here, so a value of
  type \<open>json option\<close> is what a destructured property of \<open>req.body\<close> holds.
\<close>

type_synonym obj = "string \<rightharpoonup> json"

text \<open>JavaScript truthiness, for \<open>is_new || false\<close>.\<close>

fun truthy :: "json option \<Rightarrow> bool" where
  "truthy None = False"
| "truthy (Some JNull) = False"
| "truthy (Some (JBool b)) = b"
| "truthy (Some (JNum n)) = (n \<noteq> 0)"
| "truthy (Some (JStr s)) = (s \<noteq> [])"
| "truthy (Some (JArr xs)) = True"
| "truthy (Some (JObj kvs)) = True"

definition js_or :: "json option \<Rightarrow> json option \<Rightarrow> json option" where
  "js_or a b = (if truthy a then a else b)"

text \<open>
  The object literal \<open>{ id: v, ...body }\<close>: the property \<open>id\<close> first, then every
  property of the body, a later one replacing an earlier one of the same name.
\<close>

definition spread_id :: "json \<Rightarrow> obj \<Rightarrow> obj" where
  "spread_id v body = [''id'' \<mapsto> v] ++ body"

datatype payload =
    JsonObject obj
  | JsonArray "obj list"
  | DocsPage

record response =
  status :: nat
  body :: payload

datatype verb = GET | HEAD | POST | PUT | DELETE | PATCH | OPTIONS

text \<open>
  A request as the router sees it: the method, the segments of the URL path (the path
  without its query string, cut at the slashes, one trailing slash dropped as Express
  does by default), and the body as \<open>express.json()\<close> parsed it (\<open>{}\<close> when the request
  carries none). A request whose body the parser refuses never reaches the routes and has
  no counterpart here.
\<close>

record request =
  req_method :: verb
  req_path :: "string list"
  req_body :: obj

text \<open>The fixed messages of \<open>app.js\<close>, as the UTF-8 bytes of the response.\<close>

definition e_acute :: string where
  "e_acute = [CHR 0xC3, CHR 0xA9]"

definition e_grave :: string where
  "e_grave = [CHR 0xC3, CHR 0xA8]"

definition film_non_trouve :: string where
  "film_non_trouve = ''Film non trouv'' @ e_acute"

definition film_supprime :: string where
  "film_supprime = ''Film supprim'' @ e_acute @ '' avec succ'' @ e_grave @ ''s''"

definition route_non_trouvee :: string where
  "route_non_trouvee = ''Route non trouv'' @ e_acute @ ''e''"

definition json_message :: "nat \<Rightarrow> string \<Rightarrow> response" where
  "json_message code m = \<lparr>status = code, body = JsonObject [''message'' \<mapsto> JStr m]\<rparr>"

text \<open>The \<open>catch\<close> branch of every handler: \<open>res.status(500).json({ error: err.message })\<close>.\<close>

definition json_error :: "string \<Rightarrow> response" where
  "json_error m = \<lparr>status = 500, body = JsonObject [''error'' \<mapsto> JStr m]\<rparr>"

section \<open>The movies table\<close>

text \<open>A row of the table \<open>movies\<close>: the key and the seven columns of the statements.\<close>

record movie =
  movie_id :: nat
  title_file :: json
  disk :: json
  file_col :: json
  sub_file :: json
  type_file :: json
  size_col :: json
  is_new :: json

text \<open>The object the driver hands back for a row, as \<open>res.json\<close> serialises it.\<close>

definition row_json :: "movie \<Rightarrow> obj" where
  "row_json r =
     [''id'' \<mapsto> JNum (int (movie_id r)),
      ''title_file'' \<mapsto> title_file r,
      ''disk'' \<mapsto> disk r,
      ''file'' \<mapsto> file_col r,
      ''sub_file'' \<mapsto> sub_file r,
      ''type_file'' \<mapsto> type_file r,
      ''size'' \<mapsto> size_col r,
      ''is_new'' \<mapsto> is_new r]"

text \<open>
  The values bound to the placeholders of the INSERT and the UPDATE, in the order of the
  source's array: title_file, disk, file, sub_file, type_file, size, is_new.
\<close>

record params =
  p_title_file :: "json option"
  p_disk :: "json option"
  p_file :: "json option"
  p_sub_file :: "json option"
  p_type_file :: "json option"
  p_size :: "json option"
  p_is_new :: "json option"

text \<open>
  The five statements the handlers issue, with their bound values: the two SELECTs, which
  resolve to rows, and the three writes, which resolve to a header.
\<close>

datatype select_stmt =
    SelectAll
  | SelectById string

datatype write_stmt =
    Insert params
  | Update params string
  | Delete string

text \<open>The header the driver returns for a write: \<open>affectedRows\<close> and \<open>insertId\<close>.\<close>

record header =
  affectedRows :: nat
  insertId :: nat

section \<open>The handlers of app.js\<close>

text \<open>
  \<open>await db.query(...)\<close> either throws, and the handler reads \<open>err.message\<close> (\<open>Inl\<close>), or
  gives the rows or the header (\<open>Inr\<close>). Each handler is modelled in two parts, both from
  the source: the statement it issues, and the rest of its \<open>try\<close> block with the \<open>catch\<close>,
  as a function of what the query gave.
\<close>

text \<open>\<open>app.get("/movies")\<close>\<close>

definition get_movies_respond :: "string + movie list \<Rightarrow> response" where
  "get_movies_respond r =
     (case r of
        Inl m \<Rightarrow> json_error m
      | Inr rows \<Rightarrow> \<lparr>status = 200, body = JsonArray (map row_json rows)\<rparr>)"

text \<open>\<open>app.get("/movies/:id")\<close>\<close>

definition get_movie_respond :: "string + movie list \<Rightarrow> response" where
  "get_movie_respond r =
     (case r of
        Inl m \<Rightarrow> json_error m
      | Inr [] \<Rightarrow> json_message 404 film_non_trouve
      | Inr (row # rest) \<Rightarrow> \<lparr>status = 200, body = JsonObject (row_json row)\<rparr>)"

text \<open>\<open>app.post("/movies")\<close>: the bound values, with \<open>is_new || false\<close> last.\<close>

definition post_params :: "obj \<Rightarrow> params" where
  "post_params b =
     \<lparr>p_title_file = b ''title_file'', p_disk = b ''disk'', p_file = b ''file'',
      p_sub_file = b ''sub_file'', p_type_file = b ''type_file'', p_size = b ''size'',
      p_is_new = js_or (b ''is_new'') (Some (JBool False))\<rparr>"

definition post_movies_respond :: "obj \<Rightarrow> string + header \<Rightarrow> response" where
  "post_movies_respond b r =
     (case r of
        Inl m \<Rightarrow> json_error m
      | Inr h \<Rightarrow>
          \<lparr>status = 201, body = JsonObject (spread_id (JNum (int (insertId h))) b)\<rparr>)"

text \<open>\<open>app.put("/movies/:id")\<close>: \<open>is_new\<close> is bound as it is.\<close>

definition put_params :: "obj \<Rightarrow> params" where
  "put_params b =
     \<lparr>p_title_file = b ''title_file'', p_disk = b ''disk'', p_file = b ''file'',
      p_sub_file = b ''sub_file'', p_type_file = b ''type_file'', p_size = b ''size'',
      p_is_new = b ''is_new''\<rparr>"

definition put_movie_respond :: "string \<Rightarrow> obj \<Rightarrow> string + header \<Rightarrow> response" where
  "put_movie_respond pid b r =
     (case r of
        Inl m \<Rightarrow> json_error m
      | Inr h \<Rightarrow>
          if affectedRows h = 0 then json_message 404 film_non_trouve
          else \<lparr>status = 200, body = JsonObject (spread_id (JStr pid) b)\<rparr>)"

text \<open>\<open>app.delete("/movies/:id")\<close>\<close>

definition delete_movie_respond :: "string + header \<Rightarrow> response" where
  "delete_movie_respond r =
     (case r of
        Inl m \<Rightarrow> json_error m
      | Inr h \<Rightarrow>
          if affectedRows h = 0 then json_message 404 film_non_trouve
          else json_message 200 film_supprime)"

section \<open>The storage behind db.query\<close>

text \<open>Decimal numerals, for the id in a path and the comparison \<open>WHERE id = ?\<close>.\<close>

definition digit_char :: "nat \<Rightarrow> char" where
  "digit_char d = char_of (48 + d)"

definition is_digit :: "char \<Rightarrow> bool" where
  "is_digit c = (48 \<le> (of_char c :: nat) \<and> (of_char c :: nat) \<le> 57)"

definition digit_val :: "char \<Rightarrow> nat" where
  "digit_val c = of_char c - 48"

fun show_nat :: "nat \<Rightarrow> string" where
  "show_nat n = (if n < 10 then [digit_char n] else show_nat (n div 10) @ [digit_char (n mod 10)])"

declare show_nat.simps [simp del]

definition parse_nat :: "string \<Rightarrow> nat option" where
  "parse_nat s =
     (if s \<noteq> [] \<and> list_all is_digit s
      then Some (foldl (\<lambda>a c. 10 * a + digit_val c) 0 s) else None)"

text \<open>
  Modelled from the spec: the table \<open>movies\<close> and the database behind \<open>db.query\<close>, which
  are not under src/ (db.js only creates the pool). Sections 3 and 4.1 of the spec give
  what is modelled: one table whose rows have a unique integer key generated on insert
  and the seven columns of a Movie; a read returns a sequence of rows, a write an
  affected-row count and the generated id; any driver-level error is a failure carrying
  a message. The model adds what the spec leaves open: a column holds the bound value
  as it is, an unbound (\<open>undefined\<close>) value as NULL; a new row goes to the end, with the
  next key; a bound string equals a key when it is the key's decimal numeral; the count
  of an UPDATE is the number of rows matched; a statement that fails changes nothing.
\<close>

record db =
  tbl_rows :: "movie list"
  next_id :: nat

definition empty_db :: db where
  "empty_db = \<lparr>tbl_rows = [], next_id = 1\<rparr>"

definition sql_bind :: "json option \<Rightarrow> json" where
  "sql_bind v = (case v of None \<Rightarrow> JNull | Some x \<Rightarrow> x)"

definition id_eq :: "string \<Rightarrow> movie \<Rightarrow> bool" where
  "id_eq pid r = (parse_nat pid = Some (movie_id r))"

definition new_row :: "nat \<Rightarrow> params \<Rightarrow> movie" where
  "new_row n p =
     \<lparr>movie_id = n, title_file = sql_bind (p_title_file p), disk = sql_bind (p_disk p),
      file_col = sql_bind (p_file p), sub_file = sql_bind (p_sub_file p),
      type_file = sql_bind (p_type_file p), size_col = sql_bind (p_size p),
      is_new = sql_bind (p_is_new p)\<rparr>"

definition set_row :: "params \<Rightarrow> movie \<Rightarrow> movie" where
  "set_row p r = new_row (movie_id r) p"

text \<open>
  The error of a query, when the driver raises one, is given from outside: \<open>Some m\<close> is
  an error whose message is \<open>m\<close>, whatever its cause.
\<close>

type_synonym fault = "string option"

text \<open>
  Modelled from the spec: a read through \<open>db.query\<close> (section 4.1: it returns a sequence
  of rows, or fails with a message). \<open>SELECT * FROM movies\<close> gives the rows in the table's
  order, \<open>WHERE id = ?\<close> those whose key equals the bound id.
\<close>

definition db_select :: "fault \<Rightarrow> db \<Rightarrow> select_stmt \<Rightarrow> string + movie list" where
  "db_select f d q =
     (case f of
        Some m \<Rightarrow> Inl m
      | None \<Rightarrow>
          (case q of
             SelectAll \<Rightarrow> Inr (tbl_rows d)
           | SelectById pid \<Rightarrow> Inr (filter (id_eq pid) (tbl_rows d))))"

text \<open>
  Modelled from the spec: a write through \<open>db.query\<close> (section 4.1: it returns an
  affected-row count and the generated id, or fails with a message; section 3: the key is
  generated by storage on insert, a row is changed in place by an update by id and
  removed by a delete by id).
\<close>

definition db_write :: "fault \<Rightarrow> db \<Rightarrow> write_stmt \<Rightarrow> (string + header) \<times> db" where
  "db_write f d c =
     (case f of
        Some m \<Rightarrow> (Inl m, d)
      | None \<Rightarrow>
          (case c of
             Insert p \<Rightarrow>
               (Inr \<lparr>affectedRows = 1, insertId = next_id d\<rparr>,
                d\<lparr>tbl_rows := tbl_rows d @ [new_row (next_id d) p], next_id := Suc (next_id d)\<rparr>)
           | Update p pid \<Rightarrow>
               (Inr \<lparr>affectedRows = length (filter (id_eq pid) (tbl_rows d)), insertId = 0\<rparr>,
                d\<lparr>tbl_rows := map (\<lambda>r. if id_eq pid r then set_row p r else r) (tbl_rows d)\<rparr>)
           | Delete pid \<Rightarrow>
               (Inr \<lparr>affectedRows = length (filter (id_eq pid) (tbl_rows d)), insertId = 0\<rparr>,
                d\<lparr>tbl_rows := filter (\<lambda>r. \<not> id_eq pid r) (tbl_rows d)\<rparr>)))"

text \<open>The counter of generated keys is above every key in the table.\<close>

definition wf_db :: "db \<Rightarrow> bool" where
  "wf_db d = list_all (\<lambda>r. movie_id r < next_id d) (tbl_rows d)"

section \<open>A request served: handler and storage together\<close>

definition get_movies :: "fault \<Rightarrow> db \<Rightarrow> response \<times> db" where
  "get_movies f d = (get_movies_respond (db_select f d SelectAll), d)"

definition get_movie :: "fault \<Rightarrow> db \<Rightarrow> string \<Rightarrow> response \<times> db" where
  "get_movie f d pid = (get_movie_respond (db_select f d (SelectById pid)), d)"

definition post_movies :: "fault \<Rightarrow> db \<Rightarrow> obj \<Rightarrow> response \<times> db" where
  "post_movies f d b =
     (case db_write f d (Insert (post_params b)) of
        (r, d') \<Rightarrow> (post_movies_respond b r, d'))"

definition put_movie :: "fault \<Rightarrow> db \<Rightarrow> string \<Rightarrow> obj \<Rightarrow> response \<times> db" where
  "put_movie f d pid b =
     (case db_write f d (Update (put_params b) pid) of
        (r, d') \<Rightarrow> (put_movie_respond pid b r, d'))"

definition delete_movie :: "fault \<Rightarrow> db \<Rightarrow> string \<Rightarrow> response \<times> db" where
  "delete_movie f d pid =
     (case db_write f d (Delete pid) of
        (r, d') \<Rightarrow> (delete_movie_respond r, d'))"

section \<open>Routing\<close>

text \<open>
  Express matches a route's path without regard to case (its default), so the literal
  segment \<open>movies\<close> is compared after lowering ASCII letters; the parameter \<open>:id\<close> is any
  non-empty segment. A route registered with \<open>app.get\<close> also serves HEAD.
\<close>

definition to_lower :: "char \<Rightarrow> char" where
  "to_lower c =
     (if 65 \<le> (of_char c :: nat) \<and> (of_char c :: nat) \<le> 90
      then char_of (of_char c + (32 :: nat)) else c)"

definition is_movies :: "string \<Rightarrow> bool" where
  "is_movies s = (map to_lower s = ''movies'')"

text \<open>
  What the router finds for a request: one of the five routes, with \<open>req.params.id\<close> as
  the handler reads it, or a path of the shape \<open>/movies/:id\<close> whose parameter cannot be
  decoded.
\<close>

datatype route =
    ListMovies
  | GetMovie string
  | CreateMovie
  | UpdateMovie string
  | DeleteMovie string
  | Undecodable

text \<open>
  Express percent-decodes a path parameter before the handler reads it. The decoding is
  JavaScript's \<open>decodeURIComponent\<close>, which is a parameter here: \<open>dec seg\<close> is the decoded
  segment, or \<open>None\<close> when the segment cannot be decoded. The path is matched, and its
  parameter decoded, before the method is looked at, so a path \<open>/movies/:id\<close> with an
  undecodable parameter is refused for every method.
\<close>

definition match_route :: "(string \<Rightarrow> string option) \<Rightarrow> verb \<Rightarrow> string list \<Rightarrow> route option" where
  "match_route dec m p =
     (case p of
        [s] \<Rightarrow>
          if is_movies s \<and> (m = GET \<or> m = HEAD) then Some ListMovies
          else if is_movies s \<and> m = POST then Some CreateMovie
          else None
      | [s, seg] \<Rightarrow>
          if is_movies s \<and> seg \<noteq> [] then
            (case dec seg of
               None \<Rightarrow> Some Undecodable
             | Some pid \<Rightarrow>
                 if m = GET \<or> m = HEAD then Some (GetMovie pid)
                 else if m = PUT then Some (UpdateMovie pid)
                 else if m = DELETE then Some (DeleteMovie pid)
                 else None)
          else None
      | _ \<Rightarrow> None)"

text \<open>
  How a request ends: with the answer of a handler of \<open>app.js\<close> (\<open>Answer\<close>); with whatever
  the documentation middleware sends, its page or a file of its package, which is not
  modelled further (\<open>Documentation\<close>); or with the 400 that Express itself sends for an
  undecodable parameter (\<open>BadRequest\<close>).
\<close>

datatype reply =
    Answer response
  | Documentation
  | BadRequest

text \<open>
  The application, in the order of \<open>app.js\<close>: the middleware mounted at \<open>"/"\<close> with
  \<open>app.use\<close> (line 89) comes before the routes, and \<open>"/"\<close> is a prefix of every path, so
  it receives every request and either ends it (\<open>docs req\<close>) or passes it on; then the
  five routes; then the last \<open>app.use\<close> (lines 276-278), which answers whatever is left.
  The documentation middleware comes from the package swagger-ui-express and is a
  parameter here.
\<close>

definition app ::
  "(request \<Rightarrow> bool) \<Rightarrow> (string \<Rightarrow> string option) \<Rightarrow> fault \<Rightarrow> db \<Rightarrow> request \<Rightarrow> reply \<times> db" where
  "app docs dec f d req =
     (if docs req then (Documentation, d)
      else
        (case match_route dec (req_method req) (req_path req) of
           Some ListMovies \<Rightarrow> apfst Answer (get_movies f d)
         | Some (GetMovie pid) \<Rightarrow> apfst Answer (get_movie f d pid)
         | Some CreateMovie \<Rightarrow> apfst Answer (post_movies f d (req_body req))
         | Some (UpdateMovie pid) \<Rightarrow> apfst Answer (put_movie f d pid (req_body req))
         | Some (DeleteMovie pid) \<Rightarrow> apfst Answer (delete_movie f d pid)
         | Some Undecodable \<Rightarrow> (BadRequest, d)
         | None \<Rightarrow> (Answer (json_message 404 route_non_trouvee), d)))"

text \<open>
  Modelled from the spec: the documentation middleware \<open>swaggerUi.serve\<close>,
  \<open>swaggerUi.setup(swaggerDocs)\<close>, whose package is not under src/. Section 6 of the spec
  has the generated documentation served at the service root. Mounted there, the
  middleware ends every request it receives, whatever the method and the path: it sends
  its page (or a file of its package) and never passes a request on.
\<close>

definition swagger_docs :: "request \<Rightarrow> bool" where
  "swagger_docs req = True"

text \<open>A middleware that passes every request on, for what lies behind line 89.\<close>

definition no_docs :: "request \<Rightarrow> bool" where
  "no_docs req = False"

text \<open>
  The schema \<open>MovieInput\<close> of the source: \<open>title_file\<close> required, the six text fields
  strings, \<open>is_new\<close> a boolean; the schema has no property \<open>id\<close>.
\<close>

definition is_string :: "json option \<Rightarrow> bool" where
  "is_string v = (case v of Some (JStr s) \<Rightarrow> True | _ \<Rightarrow> False)"

definition opt_string :: "json option \<Rightarrow> bool" where
  "opt_string v = (v = None \<or> is_string v)"

definition opt_bool :: "json option \<Rightarrow> bool" where
  "opt_bool v = (case v of None \<Rightarrow> True | Some (JBool b) \<Rightarrow> True | _ \<Rightarrow> False)"

definition movie_fields :: "string list" where
  "movie_fields =
     [''title_file'', ''disk'', ''file'', ''sub_file'', ''type_file'', ''size'', ''is_new'']"

definition movie_input :: "obj \<Rightarrow> bool" where
  "movie_input b =
     (is_string (b ''title_file'') \<and> opt_string (b ''disk'') \<and> opt_string (b ''file'') \<and>
      opt_string (b ''sub_file'') \<and> opt_string (b ''type_file'') \<and> opt_string (b ''size'') \<and>
      opt_bool (b ''is_new'') \<and> b ''id'' = None)"

text \<open>A property of a response whose body is a JSON object.\<close>

definition field :: "response \<Rightarrow> string \<Rightarrow> json option" where
  "field r k = (case body r of JsonObject ob \<Rightarrow> ob k | _ \<Rightarrow> None)"

section \<open>Sample requests and tables\<close>

definition title_only :: obj where
  "title_only = [''title_file'' \<mapsto> JStr ''Inception'']"

definition with_id :: obj where
  "with_id = [''id'' \<mapsto> JNum 7, ''title_file'' \<mapsto> JStr ''Inception'']"

definition falsy_is_new :: obj where
  "falsy_is_new = [''title_file'' \<mapsto> JStr ''Inception'', ''is_new'' \<mapsto> JNum 0]"

definition one_movie :: db where
  "one_movie = \<lparr>tbl_rows = [new_row 1 (post_params title_only)], next_id = 2\<rparr>"

definition get_unknown :: request where
  "get_unknown = \<lparr>req_method = GET, req_path = [''unknown''], req_body = Map.empty\<rparr>"

definition true_is_new :: obj where
  "true_is_new = [''title_file'' \<mapsto> JStr ''Inception'', ''is_new'' \<mapsto> JBool True]"

section \<open>Decimal numerals\<close>

lemma of_char_digit: "d < 10 \<Longrightarrow> of_char (digit_char d) = (48 + d :: nat)"
  by (simp add: digit_char_def)

lemma is_digit_digit_char: "d < 10 \<Longrightarrow> is_digit (digit_char d)"
  by (simp add: is_digit_def of_char_digit)

lemma digit_val_digit_char: "d < 10 \<Longrightarrow> digit_val (digit_char d) = d"
  by (simp add: digit_val_def of_char_digit)

lemma show_nat_digits: "list_all is_digit (show_nat n)"
  by (induction n rule: show_nat.induct) (subst show_nat.simps, simp add: is_digit_digit_char)

lemma show_nat_nonempty: "show_nat n \<noteq> []"
  by (subst show_nat.simps) simp

lemma show_nat_value: "foldl (\<lambda>a c. 10 * a + digit_val c) 0 (show_nat n) = n"
  by (induction n rule: show_nat.induct) (subst show_nat.simps, simp add: digit_val_digit_char)

lemma parse_show_nat: "parse_nat (show_nat n) = Some n"
  unfolding parse_nat_def using show_nat_digits show_nat_nonempty show_nat_value by simp

lemma id_eq_show_nat: "id_eq (show_nat n) r \<longleftrightarrow> n = movie_id r"
  by (simp add: id_eq_def parse_show_nat)

lemma show_nat_1: "show_nat 1 = ''1''"
  by code_simp

lemma parse_nat_1: "parse_nat ''1'' = Some 1"
  by (simp add: parse_nat_def is_digit_def digit_val_def)

lemma parse_nat_2: "parse_nat ''2'' = Some 2"
  by (simp add: parse_nat_def is_digit_def digit_val_def)

section \<open>Objects and rows\<close>

lemma spread_id_no_id: "b ''id'' = None \<Longrightarrow> spread_id v b = b(''id'' \<mapsto> v)"
  by (auto simp: spread_id_def map_add_def fun_eq_iff split: option.splits)

lemma spread_id_other: "k \<noteq> ''id'' \<Longrightarrow> spread_id v b k = b k"
  by (simp add: spread_id_def map_add_def split: option.splits)

lemma row_json_fields:
  "row_json (new_row n p) ''title_file'' = Some (sql_bind (p_title_file p))"
  "row_json (new_row n p) ''disk'' = Some (sql_bind (p_disk p))"
  "row_json (new_row n p) ''file'' = Some (sql_bind (p_file p))"
  "row_json (new_row n p) ''sub_file'' = Some (sql_bind (p_sub_file p))"
  "row_json (new_row n p) ''type_file'' = Some (sql_bind (p_type_file p))"
  "row_json (new_row n p) ''size'' = Some (sql_bind (p_size p))"
  "row_json (new_row n p) ''is_new'' = Some (sql_bind (p_is_new p))"
  "row_json (new_row n p) ''id'' = Some (JNum (int n))"
  by (simp_all add: row_json_def new_row_def)

lemma filter_none: "list_all (\<lambda>r. \<not> P r) rs \<Longrightarrow> filter P rs = []"
  by (induction rs) auto

lemma map_if_none: "list_all (\<lambda>r. \<not> P r) rs \<Longrightarrow> map (\<lambda>r. if P r then g r else r) rs = rs"
  by (induction rs) auto

lemma stored_is_new:
  "opt_bool (b ''is_new'') \<Longrightarrow>
   sql_bind (p_is_new (post_params b)) = (case b ''is_new'' of None \<Rightarrow> JBool False | Some v \<Rightarrow> v)"
  by (auto simp: opt_bool_def post_params_def js_or_def sql_bind_def split: option.splits json.splits)

lemma movie_input_title_only: "movie_input title_only"
  by (simp add: movie_input_def title_only_def is_string_def opt_string_def opt_bool_def)

lemma is_movies_unknown: "\<not> is_movies ''unknown''"
  by (simp add: is_movies_def)

lemma is_movies_lower: "is_movies ''movies''"
  by code_simp

lemma is_movies_mixed: "is_movies ''Movies''"
  by code_simp

lemma app_routes:
  assumes "\<not> docs req" and "is_movies s"
  shows "req_method req = GET \<Longrightarrow> req_path req = [s] \<Longrightarrow>
           app docs dec f d req = apfst Answer (get_movies f d)"
    and "req_method req = POST \<Longrightarrow> req_path req = [s] \<Longrightarrow>
           app docs dec f d req = apfst Answer (post_movies f d (req_body req))"
    and "req_method req = GET \<Longrightarrow> req_path req = [s, seg] \<Longrightarrow> dec seg = Some pid \<Longrightarrow> seg \<noteq> [] \<Longrightarrow>
           app docs dec f d req = apfst Answer (get_movie f d pid)"
    and "req_method req = PUT \<Longrightarrow> req_path req = [s, seg] \<Longrightarrow> dec seg = Some pid \<Longrightarrow> seg \<noteq> [] \<Longrightarrow>
           app docs dec f d req = apfst Answer (put_movie f d pid (req_body req))"
    and "req_method req = DELETE \<Longrightarrow> req_path req = [s, seg] \<Longrightarrow> dec seg = Some pid \<Longrightarrow> seg \<noteq> [] \<Longrightarrow>
           app docs dec f d req = apfst Answer (delete_movie f d pid)"
    and "req_path req = [s, seg] \<Longrightarrow> dec seg = None \<Longrightarrow> seg \<noteq> [] \<Longrightarrow>
           app docs dec f d req = (BadRequest, d)"
  using assms by (simp_all add: app_def match_route_def)

lemma catch_all_when_reached:
  assumes "\<not> docs req" and "match_route dec (req_method req) (req_path req) = None"
  shows "app docs dec f d req =
           (Answer \<lparr>status = 404,
             body = JsonObject
               [''message'' \<mapsto> JStr (''Route non trouv'' @ [CHR 0xC3, CHR 0xA9] @ ''e'')]\<rparr>, d)"
  using assms by (simp add: app_def json_message_def route_non_trouvee_def e_acute_def)

lemma unknown_unmatched: "match_route dec (req_method get_unknown) (req_path get_unknown) = None"
  by (simp add: match_route_def get_unknown_def is_movies_unknown)

section \<open>The counter of keys stays above the keys\<close>

lemma wf_db_empty: "wf_db empty_db"
  by (simp add: wf_db_def empty_db_def)

lemma wf_db_write: "wf_db d \<Longrightarrow> wf_db (snd (db_write f d c))"
  by (cases f; cases c)
     (auto simp: wf_db_def db_write_def list_all_iff set_row_def new_row_def less_Suc_eq)

lemma snd_post_movies: "snd (post_movies f d b) = snd (db_write f d (Insert (post_params b)))"
  by (simp add: post_movies_def split: prod.splits)

lemma snd_put_movie: "snd (put_movie f d pid b) = snd (db_write f d (Update (put_params b) pid))"
  by (simp add: put_movie_def split: prod.splits)

lemma snd_delete_movie: "snd (delete_movie f d pid) = snd (db_write f d (Delete pid))"
  by (simp add: delete_movie_def split: prod.splits)

lemma wf_db_app: "wf_db d \<Longrightarrow> wf_db (snd (app docs dec f d req))"
  by (simp add: app_def get_movies_def get_movie_def snd_post_movies snd_put_movie
      snd_delete_movie wf_db_write split: option.splits route.splits)

lemma fresh_id: "wf_db d \<Longrightarrow> filter (id_eq (show_nat (next_id d))) (tbl_rows d) = []"
  by (auto simp: wf_db_def list_all_iff filter_empty_conv id_eq_show_nat)

lemma get_after_post:
  assumes "wf_db d"
  shows "get_movie None (snd (post_movies None d b)) (show_nat (next_id d)) =
           (\<lparr>status = 200, body = JsonObject (row_json (new_row (next_id d) (post_params b)))\<rparr>,
            snd (post_movies None d b))"
  using fresh_id [OF assms]
  by (simp add: post_movies_def db_write_def get_movie_def db_select_def id_eq_show_nat
      new_row_def get_movie_respond_def)

lemma get_movie_respond_404: "status (get_movie_respond r) = 404 \<longleftrightarrow> r = Inr []"
  by (auto simp: get_movie_respond_def json_error_def json_message_def split: sum.splits list.splits)

section \<open>The claims\<close>

text \<open>
  C1. For every movie input with \<open>title_file\<close> set, on a table whose key counter is above
  its keys and with no driver error: POST /movies answers 201 with a numeric id, and
  GET /movies/{id} with the decimal numeral of that id answers 200 with a Movie of the
  same id in which every field of the input that was set has the posted value, an omitted
  \<open>is_new\<close> is false and an omitted text field is null.
\<close>

theorem post_then_get:
  assumes "wf_db d" and "movie_input b"
  shows "\<exists>n. status (fst (post_movies None d b)) = 201
          \<and> field (fst (post_movies None d b)) ''id'' = Some (JNum (int n))
          \<and> status (fst (get_movie None (snd (post_movies None d b)) (show_nat n))) = 200
          \<and> field (fst (get_movie None (snd (post_movies None d b)) (show_nat n))) ''id''
              = Some (JNum (int n))
          \<and> list_all (\<lambda>k. field (fst (get_movie None (snd (post_movies None d b)) (show_nat n))) k
                = (case b k of Some v \<Rightarrow> Some v
                   | None \<Rightarrow> Some (if k = ''is_new'' then JBool False else JNull))) movie_fields"
proof -
  from assms(2) have noid: "b ''id'' = None" and ob: "opt_bool (b ''is_new'')"
    by (simp_all add: movie_input_def)
  have post: "fst (post_movies None d b) =
      \<lparr>status = 201, body = JsonObject (b(''id'' \<mapsto> JNum (int (next_id d))))\<rparr>"
    using noid by (simp add: post_movies_def db_write_def post_movies_respond_def spread_id_no_id)
  have get: "fst (get_movie None (snd (post_movies None d b)) (show_nat (next_id d))) =
      \<lparr>status = 200, body = JsonObject (row_json (new_row (next_id d) (post_params b)))\<rparr>"
    by (simp add: get_after_post [OF assms(1)])
  have flds: "list_all (\<lambda>k. row_json (new_row (next_id d) (post_params b)) k
      = (case b k of Some v \<Rightarrow> Some v
         | None \<Rightarrow> Some (if k = ''is_new'' then JBool False else JNull))) movie_fields"
    using stored_is_new [of b] ob
    by (simp add: movie_fields_def row_json_fields)
       (simp add: post_params_def sql_bind_def split: option.splits)
  show ?thesis
    apply (rule exI [of _ "next_id d"])
    using flds
    by (simp add: post get field_def row_json_fields)
qed

theorem post_then_get_witness:
  "wf_db empty_db \<and> movie_input title_only
   \<and> field (fst (post_movies None empty_db title_only)) ''id'' = Some (JNum 1)
   \<and> status (fst (get_movie None (snd (post_movies None empty_db title_only)) ''1'')) = 200
   \<and> field (fst (get_movie None (snd (post_movies None empty_db title_only)) ''1'')) ''title_file''
       = Some (JStr ''Inception'')
   \<and> field (fst (get_movie None (snd (post_movies None empty_db title_only)) ''1'')) ''is_new''
       = Some (JBool False)"
proof -
  from post_then_get [OF wf_db_empty movie_input_title_only] obtain n where
    i: "field (fst (post_movies None empty_db title_only)) ''id'' = Some (JNum (int n))"
    and s: "status (fst (get_movie None (snd (post_movies None empty_db title_only)) (show_nat n))) = 200"
    and l: "list_all (\<lambda>k. field (fst (get_movie None (snd (post_movies None empty_db title_only)) (show_nat n))) k
                = (case title_only k of Some v \<Rightarrow> Some v
                   | None \<Rightarrow> Some (if k = ''is_new'' then JBool False else JNull))) movie_fields"
    by blast
  have "field (fst (post_movies None empty_db title_only)) ''id'' = Some (JNum 1)"
    by (simp add: post_movies_def db_write_def post_movies_respond_def field_def spread_id_def
        empty_db_def title_only_def)
  with i have n1: "n = 1" by simp
  note s1 = s [unfolded n1 show_nat_1] and l1 = l [unfolded n1 show_nat_1]
  have t: "title_only ''title_file'' = Some (JStr ''Inception'')" "title_only ''is_new'' = None"
    by (simp_all add: title_only_def)
  from l1 have f:
    "field (fst (get_movie None (snd (post_movies None empty_db title_only)) ''1'')) ''title_file''
       = Some (JStr ''Inception'')"
    "field (fst (get_movie None (snd (post_movies None empty_db title_only)) ''1'')) ''is_new''
       = Some (JBool False)"
    by (simp_all add: movie_fields_def t)
  from i n1 have i1: "field (fst (post_movies None empty_db title_only)) ''id'' = Some (JNum 1)"
    by simp
  show ?thesis
    using wf_db_empty movie_input_title_only i1 s1 f by blast
qed

text \<open>
  C2, as amended. For every POST /movies whose query succeeds, whatever the request body,
  the answer has status 201 and its body is the object \<open>{ id: insertId, ...req.body }\<close>:
  every property of the request body, and the property \<open>id\<close>, which is the request body's
  own \<open>id\<close> when it has one and otherwise the \<open>insertId\<close> of the header. In the table that
  \<open>insertId\<close> is the key of the row just inserted.
\<close>

theorem post_movies_generated_id:
  "post_movies_respond b (Inr h) =
     \<lparr>status = 201, body = JsonObject ([''id'' \<mapsto> JNum (int (insertId h))] ++ b)\<rparr>
   \<and> field (post_movies_respond b (Inr h)) k =
       (if k = ''id''
        then (case b ''id'' of None \<Rightarrow> Some (JNum (int (insertId h))) | Some v \<Rightarrow> Some v)
        else b k)
   \<and> post_movies None d b =
       (\<lparr>status = 201, body = JsonObject ([''id'' \<mapsto> JNum (int (next_id d))] ++ b)\<rparr>,
        d\<lparr>tbl_rows := tbl_rows d @ [new_row (next_id d) (post_params b)],
          next_id := Suc (next_id d)\<rparr>)
   \<and> movie_id (new_row (next_id d) (post_params b)) = next_id d
   \<and> field (fst (post_movies None d b)) k =
       (if k = ''id''
        then (case b ''id'' of None \<Rightarrow> Some (JNum (int (next_id d))) | Some v \<Rightarrow> Some v)
        else b k)"
  by (simp add: post_movies_respond_def post_movies_def db_write_def new_row_def field_def
      spread_id_def map_add_def split: option.splits)

theorem post_movies_generated_id_witness:
  "field (fst (post_movies None empty_db title_only)) ''id'' = Some (JNum 1)
   \<and> field (fst (post_movies None empty_db with_id)) ''id'' = Some (JNum 7)
   \<and> field (fst (post_movies None empty_db with_id)) ''title_file'' = Some (JStr ''Inception'')
   \<and> snd (post_movies None empty_db title_only) =
       \<lparr>tbl_rows = [new_row 1 (post_params title_only)], next_id = 2\<rparr>"
proof -
  have e: "title_only ''id'' = None" "with_id ''id'' = Some (JNum 7)"
    "with_id ''title_file'' = Some (JStr ''Inception'')"
    by (simp_all add: title_only_def with_id_def)
  have n: "next_id empty_db = 1" "tbl_rows empty_db = []"
    by (simp_all add: empty_db_def)
  have a: "field (fst (post_movies None empty_db title_only)) ''id'' = Some (JNum 1)"
    using post_movies_generated_id [of title_only _ "''id''" empty_db,
        THEN conjunct2, THEN conjunct2, THEN conjunct2, THEN conjunct2]
    by (simp add: e n)
  have b: "field (fst (post_movies None empty_db with_id)) ''id'' = Some (JNum 7)"
    using post_movies_generated_id [of with_id _ "''id''" empty_db,
        THEN conjunct2, THEN conjunct2, THEN conjunct2, THEN conjunct2]
    by (simp add: e n)
  have c: "field (fst (post_movies None empty_db with_id)) ''title_file''
      = Some (JStr ''Inception'')"
    using post_movies_generated_id [of with_id _ "''title_file''" empty_db,
        THEN conjunct2, THEN conjunct2, THEN conjunct2, THEN conjunct2]
    by (simp add: e n)
  have t: "snd (post_movies None empty_db title_only) =
       \<lparr>tbl_rows = [new_row 1 (post_params title_only)], next_id = 2\<rparr>"
    using post_movies_generated_id [of title_only _ "''id''" empty_db,
        THEN conjunct2, THEN conjunct2, THEN conjunct1]
    by (simp add: empty_db_def)
  show ?thesis
    using a b c t by blast
qed

text \<open>
  C2 as stated fails for a request body that has an \<open>id\<close>: on the empty table the row gets
  the key 1, and the answer carries the body's \<open>id\<close>, 7.
\<close>

theorem post_movies_body_id_counterexample:
  "status (fst (post_movies None empty_db with_id)) = 201
   \<and> map movie_id (tbl_rows (snd (post_movies None empty_db with_id))) = [1]
   \<and> field (fst (post_movies None empty_db with_id)) ''id'' = Some (JNum 7)"
  by (simp add: post_movies_def db_write_def post_movies_respond_def field_def spread_id_def
      empty_db_def with_id_def new_row_def)

text \<open>
  C3. GET /unknown matches none of the five routes, and behind a middleware that passes
  it on the last \<open>app.use\<close> answers it 404 with the message \<open>Route non trouv\<close> + e acute +
  \<open>e\<close> (its UTF-8 bytes). In the application as \<open>app.js\<close> builds it, the documentation
  middleware of line 89 stands before the routes and ends this request, as it ends every
  request: the 404 of lines 276-278 is never sent, and the table is untouched.
\<close>

theorem unknown_route_never_reaches_catch_all:
  "match_route dec (req_method get_unknown) (req_path get_unknown) = None
   \<and> app no_docs dec f d get_unknown =
       (Answer \<lparr>status = 404,
          body = JsonObject
            [''message'' \<mapsto> JStr (''Route non trouv'' @ [CHR 0xC3, CHR 0xA9] @ ''e'')]\<rparr>, d)
   \<and> app swagger_docs dec f d get_unknown = (Documentation, d)
   \<and> app swagger_docs dec f d req = (Documentation, d)"
  by (simp add: unknown_unmatched app_def swagger_docs_def no_docs_def json_message_def
      route_non_trouvee_def e_acute_def)

text \<open>
  C4. When no row of the table has the id of the path and the query raises no error,
  GET /movies/{id} answers 404 with the message \<open>Film non trouv\<close> + e acute (its UTF-8 bytes) and leaves
  the table as it is; and whatever the query gives, the handler answers 404 exactly when
  the query gives zero rows.
\<close>

theorem get_movie_not_found:
  assumes "list_all (\<lambda>r. \<not> id_eq pid r) (tbl_rows d)"
  shows "get_movie None d pid =
           (\<lparr>status = 404,
             body = JsonObject
               [''message'' \<mapsto> JStr (''Film non trouv'' @ [CHR 0xC3, CHR 0xA9])]\<rparr>, d)
         \<and> (\<forall>r. status (get_movie_respond r) = 404 \<longleftrightarrow> r = Inr [])"
  using assms
  by (simp add: get_movie_def db_select_def filter_none get_movie_respond_404)
     (simp add: get_movie_respond_def json_message_def film_non_trouve_def e_acute_def)

theorem get_movie_not_found_witness:
  "list_all (\<lambda>r. \<not> id_eq ''2'' r) (tbl_rows one_movie)
   \<and> get_movie None one_movie ''2'' =
           (\<lparr>status = 404,
             body = JsonObject
               [''message'' \<mapsto> JStr (''Film non trouv'' @ [CHR 0xC3, CHR 0xA9])]\<rparr>, one_movie)"
proof -
  have h: "list_all (\<lambda>r. \<not> id_eq ''2'' r) (tbl_rows one_movie)"
    by (simp add: one_movie_def id_eq_def parse_nat_2 new_row_def)
  show ?thesis using h get_movie_not_found [OF h] by simp
qed

text \<open>
  C5. When no row of the table has the id of the path and the query raises no error,
  PUT /movies/{id} answers 404 for every request body, and the table afterwards is the
  table before: no row is added and none is changed.
\<close>

theorem put_unknown_id:
  assumes "list_all (\<lambda>r. \<not> id_eq pid r) (tbl_rows d)"
  shows "put_movie None d pid b =
           (\<lparr>status = 404,
             body = JsonObject
               [''message'' \<mapsto> JStr (''Film non trouv'' @ [CHR 0xC3, CHR 0xA9])]\<rparr>, d)"
  using assms
  by (simp add: put_movie_def db_write_def filter_none map_if_none put_movie_respond_def
      json_message_def film_non_trouve_def e_acute_def)

theorem put_unknown_id_witness:
  "list_all (\<lambda>r. \<not> id_eq ''2'' r) (tbl_rows one_movie)
   \<and> put_movie None one_movie ''2'' with_id =
           (\<lparr>status = 404,
             body = JsonObject
               [''message'' \<mapsto> JStr (''Film non trouv'' @ [CHR 0xC3, CHR 0xA9])]\<rparr>, one_movie)"
proof -
  have h: "list_all (\<lambda>r. \<not> id_eq ''2'' r) (tbl_rows one_movie)"
    by (simp add: one_movie_def id_eq_def parse_nat_2 new_row_def)
  show ?thesis using h put_unknown_id [OF h] by simp
qed

text \<open>
  C6. When some row of the table has the id of the path and the query raises no error,
  DELETE /movies/{id} answers 200 with the message \<open>Film supprim\<close> + e acute +
  \<open> avec succ\<close> + e grave + \<open>s\<close> (its UTF-8 bytes), the table afterwards is the table
  before without the rows of that id, and a GET /movies/{id} that follows, its query
  raising no error, answers 404.
\<close>

theorem delete_then_get:
  assumes "list_ex (id_eq pid) (tbl_rows d)"
  shows "\<exists>d'. delete_movie None d pid =
           (\<lparr>status = 200,
             body = JsonObject [''message'' \<mapsto>
               JStr (''Film supprim'' @ [CHR 0xC3, CHR 0xA9] @ '' avec succ''
                     @ [CHR 0xC3, CHR 0xA8] @ ''s'')]\<rparr>, d')
         \<and> tbl_rows d' = filter (\<lambda>r. \<not> id_eq pid r) (tbl_rows d)
         \<and> get_movie None d' pid =
           (\<lparr>status = 404,
             body = JsonObject
               [''message'' \<mapsto> JStr (''Film non trouv'' @ [CHR 0xC3, CHR 0xA9])]\<rparr>, d')"
proof -
  from assms have ne: "filter (id_eq pid) (tbl_rows d) \<noteq> []"
    by (simp add: list_ex_iff filter_empty_conv)
  have gone: "filter (id_eq pid) (filter (\<lambda>r. \<not> id_eq pid r) (tbl_rows d)) = []"
    by (simp add: filter_empty_conv)
  let ?d' = "d\<lparr>tbl_rows := filter (\<lambda>r. \<not> id_eq pid r) (tbl_rows d)\<rparr>"
  have del: "delete_movie None d pid = (json_message 200 film_supprime, ?d')"
    using ne by (simp add: delete_movie_def db_write_def delete_movie_respond_def)
  have get: "get_movie None ?d' pid = (json_message 404 film_non_trouve, ?d')"
    using gone by (simp add: get_movie_def db_select_def get_movie_respond_def)
  show ?thesis
    using del get
    by (simp add: json_message_def film_supprime_def film_non_trouve_def e_acute_def e_grave_def)
qed

theorem delete_then_get_witness:
  "list_ex (id_eq ''1'') (tbl_rows one_movie)
   \<and> delete_movie None one_movie ''1'' =
           (\<lparr>status = 200,
             body = JsonObject [''message'' \<mapsto>
               JStr (''Film supprim'' @ [CHR 0xC3, CHR 0xA9] @ '' avec succ''
                     @ [CHR 0xC3, CHR 0xA8] @ ''s'')]\<rparr>,
            \<lparr>tbl_rows = [], next_id = 2\<rparr>)
   \<and> get_movie None \<lparr>tbl_rows = [], next_id = 2\<rparr> ''1'' =
           (\<lparr>status = 404,
             body = JsonObject
               [''message'' \<mapsto> JStr (''Film non trouv'' @ [CHR 0xC3, CHR 0xA9])]\<rparr>,
            \<lparr>tbl_rows = [], next_id = 2\<rparr>)"
proof -
  have h: "list_ex (id_eq ''1'') (tbl_rows one_movie)"
    by (simp add: one_movie_def id_eq_def parse_nat_1 new_row_def)
  have e: "d' = \<lparr>tbl_rows = [], next_id = 2\<rparr>"
    if "tbl_rows d' = filter (\<lambda>r. \<not> id_eq ''1'' r) (tbl_rows one_movie)"
      and "delete_movie None one_movie ''1'' = (r, d')" for d' r
    using that
    by (cases d')
       (auto simp: one_movie_def id_eq_def parse_nat_1 new_row_def delete_movie_def db_write_def)
  from delete_then_get [OF h] obtain d' where
    d: "delete_movie None one_movie ''1'' =
           (\<lparr>status = 200,
             body = JsonObject [''message'' \<mapsto>
               JStr (''Film supprim'' @ [CHR 0xC3, CHR 0xA9] @ '' avec succ''
                     @ [CHR 0xC3, CHR 0xA8] @ ''s'')]\<rparr>, d')"
    and t: "tbl_rows d' = filter (\<lambda>r. \<not> id_eq ''1'' r) (tbl_rows one_movie)"
    and g: "get_movie None d' ''1'' =
           (\<lparr>status = 404,
             body = JsonObject
               [''message'' \<mapsto> JStr (''Film non trouv'' @ [CHR 0xC3, CHR 0xA9])]\<rparr>, d')"
    by blast
  from e [OF t d] have "d' = \<lparr>tbl_rows = [], next_id = 2\<rparr>" .
  with h d g show ?thesis by simp
qed

text \<open>
  C7. For every table, when the query raises no error, GET /movies answers 200 with the
  array of the table's rows, one element for each row and in the table's order, and
  leaves the table as it is; whatever rows the query gives, the handler answers 200 with
  exactly those rows, in that order.
\<close>

theorem get_movies_lists_table:
  "get_movies None d = (\<lparr>status = 200, body = JsonArray (map row_json (tbl_rows d))\<rparr>, d)
   \<and> length (map row_json (tbl_rows d)) = length (tbl_rows d)
   \<and> get_movies_respond (Inr rs) = \<lparr>status = 200, body = JsonArray (map row_json rs)\<rparr>"
  by (simp add: get_movies_def get_movies_respond_def db_select_def)

text \<open>
  C8. For each of the five handlers and every error message \<open>m\<close>: when the query raises
  an error with that message, the handler answers 500 with the body \<open>{error: m}\<close>, both as
  a function of what the query gave and with the storage, whose table stays as it is.
\<close>

theorem handlers_report_error:
  "get_movies_respond (Inl m) = \<lparr>status = 500, body = JsonObject [''error'' \<mapsto> JStr m]\<rparr>
   \<and> get_movie_respond (Inl m) = \<lparr>status = 500, body = JsonObject [''error'' \<mapsto> JStr m]\<rparr>
   \<and> post_movies_respond b (Inl m) = \<lparr>status = 500, body = JsonObject [''error'' \<mapsto> JStr m]\<rparr>
   \<and> put_movie_respond pid b (Inl m) = \<lparr>status = 500, body = JsonObject [''error'' \<mapsto> JStr m]\<rparr>
   \<and> delete_movie_respond (Inl m) = \<lparr>status = 500, body = JsonObject [''error'' \<mapsto> JStr m]\<rparr>
   \<and> get_movies (Some m) d = (\<lparr>status = 500, body = JsonObject [''error'' \<mapsto> JStr m]\<rparr>, d)
   \<and> get_movie (Some m) d pid = (\<lparr>status = 500, body = JsonObject [''error'' \<mapsto> JStr m]\<rparr>, d)
   \<and> post_movies (Some m) d b = (\<lparr>status = 500, body = JsonObject [''error'' \<mapsto> JStr m]\<rparr>, d)
   \<and> put_movie (Some m) d pid b = (\<lparr>status = 500, body = JsonObject [''error'' \<mapsto> JStr m]\<rparr>, d)
   \<and> delete_movie (Some m) d pid = (\<lparr>status = 500, body = JsonObject [''error'' \<mapsto> JStr m]\<rparr>, d)"
  by (simp add: get_movies_def get_movie_def post_movies_def put_movie_def delete_movie_def
      get_movies_respond_def get_movie_respond_def post_movies_respond_def put_movie_respond_def
      delete_movie_respond_def db_select_def db_write_def json_error_def)

text \<open>
  C9. Whenever the PUT handler answers 200, its body is the object \<open>{ id: req.params.id,
  ...req.body }\<close>: a function of the path parameter and the request body alone, with no
  row of the table in it. Its \<open>id\<close> is the path parameter as a string, unless the request
  body has an \<open>id\<close>, which then takes its place; every other property is the request
  body's, whether a column of the table or not.
\<close>

theorem put_echoes_body:
  assumes "status (put_movie_respond pid b r) = 200"
  shows "put_movie_respond pid b r =
           \<lparr>status = 200, body = JsonObject ([''id'' \<mapsto> JStr pid] ++ b)\<rparr>
       \<and> field (put_movie_respond pid b r) k =
           (if k = ''id'' then (case b ''id'' of None \<Rightarrow> Some (JStr pid) | Some v \<Rightarrow> Some v)
            else b k)"
  using assms
  by (auto simp: put_movie_respond_def json_error_def json_message_def spread_id_def map_add_def
      field_def split: sum.splits if_splits option.splits)

theorem put_echoes_body_witness:
  "status (put_movie_respond ''1'' with_id (Inr \<lparr>affectedRows = 1, insertId = 0\<rparr>)) = 200
   \<and> field (put_movie_respond ''1'' with_id (Inr \<lparr>affectedRows = 1, insertId = 0\<rparr>)) ''id''
       = Some (JNum 7)
   \<and> field (put_movie_respond ''1'' title_only (Inr \<lparr>affectedRows = 1, insertId = 0\<rparr>)) ''id''
       = Some (JStr ''1'')"
proof -
  have a: "status (put_movie_respond ''1'' with_id (Inr \<lparr>affectedRows = 1, insertId = 0\<rparr>)) = 200"
    by (simp add: put_movie_respond_def)
  have b: "status (put_movie_respond ''1'' title_only (Inr \<lparr>affectedRows = 1, insertId = 0\<rparr>)) = 200"
    by (simp add: put_movie_respond_def)
  have e: "with_id ''id'' = Some (JNum 7)" "title_only ''id'' = None"
    by (simp_all add: with_id_def title_only_def)
  from put_echoes_body [OF a, of "''id''", THEN conjunct2]
  have c: "field (put_movie_respond ''1'' with_id (Inr \<lparr>affectedRows = 1, insertId = 0\<rparr>)) ''id''
       = Some (JNum 7)"
    by (simp add: e)
  from put_echoes_body [OF b, of "''id''", THEN conjunct2]
  have d: "field (put_movie_respond ''1'' title_only (Inr \<lparr>affectedRows = 1, insertId = 0\<rparr>)) ''id''
       = Some (JStr ''1'')"
    by (simp add: e)
  show ?thesis
    using a c d by blast
qed

text \<open>
  C10. For every POST /movies, the value bound for \<open>is_new\<close> is \<open>is_new || false\<close>: a falsy
  \<open>is_new\<close> (false, 0, the empty string, null, or none at all) is bound as false, and a
  truthy one (true, a number other than 0, a string that is not empty, an array, an
  object) is bound as it is. The new row stores the bound value; and the 201 answer
  carries the request's own \<open>is_new\<close>, as it was sent.
\<close>

theorem post_is_new_coerced:
  "p_is_new (post_params b) =
     (case b ''is_new'' of
        None \<Rightarrow> Some (JBool False)
      | Some JNull \<Rightarrow> Some (JBool False)
      | Some (JBool x) \<Rightarrow> Some (JBool x)
      | Some (JNum n) \<Rightarrow> (if n = 0 then Some (JBool False) else Some (JNum n))
      | Some (JStr s) \<Rightarrow> (if s = [] then Some (JBool False) else Some (JStr s))
      | Some (JArr xs) \<Rightarrow> Some (JArr xs)
      | Some (JObj kvs) \<Rightarrow> Some (JObj kvs))
   \<and> is_new (last (tbl_rows (snd (post_movies None d b)))) =
     (case b ''is_new'' of
        None \<Rightarrow> JBool False
      | Some JNull \<Rightarrow> JBool False
      | Some (JBool x) \<Rightarrow> JBool x
      | Some (JNum n) \<Rightarrow> (if n = 0 then JBool False else JNum n)
      | Some (JStr s) \<Rightarrow> (if s = [] then JBool False else JStr s)
      | Some (JArr xs) \<Rightarrow> JArr xs
      | Some (JObj kvs) \<Rightarrow> JObj kvs)
   \<and> p_is_new (post_params b) = js_or (b ''is_new'') (Some (JBool False))
   \<and> (\<not> truthy (b ''is_new'') \<longrightarrow> p_is_new (post_params b) = Some (JBool False))
   \<and> (truthy (b ''is_new'') \<longrightarrow> p_is_new (post_params b) = b ''is_new'')
   \<and> (b ''is_new'' \<in> {None, Some (JBool False), Some (JNum 0), Some (JStr []), Some JNull}
        \<longrightarrow> is_new (last (tbl_rows (snd (post_movies None d b)))) = JBool False)
   \<and> (b ''is_new'' = Some (JBool True)
        \<longrightarrow> is_new (last (tbl_rows (snd (post_movies None d b)))) = JBool True)
   \<and> is_new (last (tbl_rows (snd (post_movies None d b))))
       = sql_bind (js_or (b ''is_new'') (Some (JBool False)))
   \<and> field (post_movies_respond b (Inr h)) ''is_new'' = b ''is_new''
   \<and> field (fst (post_movies None d b)) ''is_new'' = b ''is_new''"
proof -
  have bound: "p_is_new (post_params b) =
     (case b ''is_new'' of
        None \<Rightarrow> Some (JBool False)
      | Some JNull \<Rightarrow> Some (JBool False)
      | Some (JBool x) \<Rightarrow> Some (JBool x)
      | Some (JNum n) \<Rightarrow> (if n = 0 then Some (JBool False) else Some (JNum n))
      | Some (JStr s) \<Rightarrow> (if s = [] then Some (JBool False) else Some (JStr s))
      | Some (JArr xs) \<Rightarrow> Some (JArr xs)
      | Some (JObj kvs) \<Rightarrow> Some (JObj kvs))"
    by (simp add: post_params_def js_or_def split: option.splits json.splits)
  have row: "is_new (last (tbl_rows (snd (post_movies None d b)))) = sql_bind (p_is_new (post_params b))"
    by (simp add: post_movies_def db_write_def new_row_def)
  have stored: "is_new (last (tbl_rows (snd (post_movies None d b)))) =
     (case b ''is_new'' of
        None \<Rightarrow> JBool False
      | Some JNull \<Rightarrow> JBool False
      | Some (JBool x) \<Rightarrow> JBool x
      | Some (JNum n) \<Rightarrow> (if n = 0 then JBool False else JNum n)
      | Some (JStr s) \<Rightarrow> (if s = [] then JBool False else JStr s)
      | Some (JArr xs) \<Rightarrow> JArr xs
      | Some (JObj kvs) \<Rightarrow> JObj kvs)"
    by (simp add: row bound sql_bind_def split: option.splits json.splits)
  have named: "p_is_new (post_params b) = js_or (b ''is_new'') (Some (JBool False))"
    by (simp add: post_params_def)
  have falsy: "\<not> truthy (b ''is_new'') \<longrightarrow> p_is_new (post_params b) = Some (JBool False)"
    by (simp add: named js_or_def)
  have truthy: "truthy (b ''is_new'') \<longrightarrow> p_is_new (post_params b) = b ''is_new''"
    by (simp add: named js_or_def)
  have falsy_row: "b ''is_new'' \<in> {None, Some (JBool False), Some (JNum 0), Some (JStr []), Some JNull}
        \<longrightarrow> is_new (last (tbl_rows (snd (post_movies None d b)))) = JBool False"
    by (auto simp: stored)
  have true_row: "b ''is_new'' = Some (JBool True)
        \<longrightarrow> is_new (last (tbl_rows (snd (post_movies None d b)))) = JBool True"
    by (simp add: stored)
  have row_named: "is_new (last (tbl_rows (snd (post_movies None d b))))
       = sql_bind (js_or (b ''is_new'') (Some (JBool False)))"
    by (simp add: row named)
  have echo1: "field (post_movies_respond b (Inr h)) ''is_new'' = b ''is_new''"
    by (simp add: field_def post_movies_respond_def spread_id_other)
  have echo2: "field (fst (post_movies None d b)) ''is_new'' = b ''is_new''"
    by (simp add: post_movies_def db_write_def field_def post_movies_respond_def spread_id_other)
  show ?thesis
    using bound stored named falsy truthy falsy_row true_row row_named echo1 echo2 by blast
qed

theorem post_is_new_coerced_witness:
  "\<not> truthy (falsy_is_new ''is_new'')
   \<and> p_is_new (post_params falsy_is_new) = Some (JBool False)
   \<and> is_new (last (tbl_rows (snd (post_movies None empty_db falsy_is_new)))) = JBool False
   \<and> field (fst (post_movies None empty_db falsy_is_new)) ''is_new'' = Some (JNum 0)
   \<and> truthy (true_is_new ''is_new'')
   \<and> p_is_new (post_params true_is_new) = Some (JBool True)
   \<and> is_new (last (tbl_rows (snd (post_movies None empty_db true_is_new)))) = JBool True
   \<and> field (fst (post_movies None empty_db true_is_new)) ''is_new'' = Some (JBool True)"
proof -
  have h: "falsy_is_new ''is_new'' = Some (JNum 0)" "true_is_new ''is_new'' = Some (JBool True)"
    by (simp_all add: falsy_is_new_def true_is_new_def)
  show ?thesis
    using post_is_new_coerced [of falsy_is_new empty_db] post_is_new_coerced [of true_is_new empty_db] h
    by simp
qed

end
